theory Spec2Isabelle
  imports Complex_Main "HOL-Library.Word"
begin

section \<open>Chunked speech enhancement: a shallow embedding of \<^verbatim>\<open>main_denoising.py\<close>\<close>

text \<open>
  The theory embeds \<^verbatim>\<open>denoise_wav\<close>, the \<^verbatim>\<open>Process\<close> wrapper and the
  batch loop of \<^verbatim>\<open>main_denoising\<close>. Python floats are modelled as reals, Python
  integers as \<^typ>\<open>int\<close>, 16-bit PCM samples as \<^typ>\<open>16 word\<close>. An exception is a
  value: a function that can raise returns \<open>exn + 'a\<close>, with \<open>Inl\<close> the exception.
  The modules \<^verbatim>\<open>utils\<close> and \<^verbatim>\<open>decode_model\<close> are not part of the embedded
  file; what they compute is a parameter of the model (the record \<open>env\<close> below).
  Standard output, the temporary directory of each chunk and the creation of the output
  directory are left out: no property stated here depends on them.
\<close>

subsection \<open>Exceptions\<close>

text \<open>An exception is its class name and its message (\<^verbatim>\<open>str(e)\<close>).\<close>

datatype exn = Exn (etype: string) (emsg: string)

definition ZeroDivisionError :: exn where
  "ZeroDivisionError = Exn ''ZeroDivisionError'' ''division by zero''"

definition BroadcastError :: exn where
  "BroadcastError = Exn ''ValueError'' ''operands could not be broadcast together''"

definition ConcatenateError :: exn where
  "ConcatenateError = Exn ''ValueError'' ''need at least one array to concatenate''"

definition UnboundLocalError :: exn where
  "UnboundLocalError =
     Exn ''UnboundLocalError'' ''local variable 'recovered_lps' referenced before assignment''"

definition KeyError :: "string \<Rightarrow> exn" where
  "KeyError k = Exn ''KeyError'' k"

definition IOError :: "string \<Rightarrow> exn" where
  "IOError p = Exn ''IOError'' p"

text \<open>Sequencing of two steps, the second of which runs only if the first did not raise.\<close>

definition and_then :: "exn + 'a \<Rightarrow> ('a \<Rightarrow> exn + 'b) \<Rightarrow> exn + 'b" where
  "and_then m f = (case m of Inl e \<Rightarrow> Inl e | Inr x \<Rightarrow> f x)"

subsection \<open>Constants\<close>

definition SR :: int where "SR = 16000"
definition NUM_CHANNELS :: int where "NUM_CHANNELS = 1"
definition BITDEPTH :: int where "BITDEPTH = 16"
definition WL :: int where "WL = 512"
definition WL2 :: int where "WL2 = WL div 2"
definition NFREQS :: int where "NFREQS = 257"

subsection \<open>Chunk boundaries\<close>

text \<open>Python's \<^verbatim>\<open>int(x)\<close> on a float: truncation towards zero.\<close>

definition py_int :: "real \<Rightarrow> int" where
  "py_int x = (if 0 \<le> x then \<lfloor>x\<rfloor> else \<lceil>x\<rceil>)"

text \<open>\<^verbatim>\<open>chunk_length = int(truncate_minutes*rate*60)\<close>\<close>

definition chunk_length :: "real \<Rightarrow> int \<Rightarrow> int" where
  "chunk_length truncate_minutes rate = py_int (truncate_minutes * of_int rate * 60)"

text \<open>
  \<^verbatim>\<open>total_chunks = int(math.ceil(wav_data.size / chunk_length))\<close>, a true division
  (\<^verbatim>\<open>from __future__ import division\<close>) of two Python integers, which raises when the
  divisor is zero.
\<close>

definition total_chunks :: "int \<Rightarrow> int \<Rightarrow> exn + int" where
  "total_chunks sz c =
     (if c = 0 then Inl ZeroDivisionError
      else Inr (py_int (of_int \<lceil>(of_int sz :: real) / of_int c\<rceil>)))"

text \<open>A slice \<^verbatim>\<open>xs[b:e]\<close> of a sequence, with Python's treatment of bounds.\<close>

definition slice_index :: "int \<Rightarrow> int \<Rightarrow> nat" where
  "slice_index n i = (if i < 0 then nat (max 0 (i + n)) else nat (min i n))"

definition py_slice :: "'a list \<Rightarrow> int \<Rightarrow> int \<Rightarrow> 'a list" where
  "py_slice xs b e =
     (let n = int (length xs) in drop (slice_index n b) (take (slice_index n e) xs))"

text \<open>The samples \<^verbatim>\<open>temp\<close> of chunk \<open>i\<close>: \<^verbatim>\<open>bi = (i-1)*chunk_length\<close>,
  \<^verbatim>\<open>ei = bi + chunk_length\<close>, \<^verbatim>\<open>temp = wav_data[bi:ei]\<close>.\<close>

definition chunk_at :: "'a list \<Rightarrow> int \<Rightarrow> int \<Rightarrow> 'a list" where
  "chunk_at wav_data c i = (let bi = (i - 1) * c; ei = bi + c in py_slice wav_data bi ei)"

subsection \<open>Arrays\<close>

text \<open>
  A two-dimensional \<^verbatim>\<open>ndarray\<close> of floats: its shape and its entries. Only the
  entries \<open>nd_at a i j\<close> with \<open>i < nd_rows a\<close> and \<open>j < nd_cols a\<close> belong to the array.
\<close>

record ndarray =
  nd_rows :: nat
  nd_cols :: nat
  nd_at :: "nat \<Rightarrow> nat \<Rightarrow> real"

text \<open>
  Broadcasting of a binary operation: two extents are compatible when they are equal
  or one of them is 1, and an axis of extent 1 is repeated along the other array's axis.
  Incompatible shapes raise \<^verbatim>\<open>ValueError\<close>.
\<close>

definition bdim :: "nat \<Rightarrow> nat \<Rightarrow> nat option" where
  "bdim m n = (if m = n then Some m else if m = 1 then Some n
               else if n = 1 then Some m else None)"

definition bidx :: "nat \<Rightarrow> nat \<Rightarrow> nat" where
  "bidx n i = (if n = 1 then 0 else i)"

definition broadcast :: "(real \<Rightarrow> real \<Rightarrow> real) \<Rightarrow> ndarray \<Rightarrow> ndarray \<Rightarrow> exn + ndarray" where
  "broadcast f a b =
     (case bdim (nd_rows a) (nd_rows b) of
        None \<Rightarrow> Inl BroadcastError
      | Some r \<Rightarrow>
          (case bdim (nd_cols a) (nd_cols b) of
             None \<Rightarrow> Inl BroadcastError
           | Some c \<Rightarrow>
               Inr \<lparr>nd_rows = r, nd_cols = c,
                    nd_at = (\<lambda>i j. f (nd_at a (bidx (nd_rows a) i) (bidx (nd_cols a) j))
                                     (nd_at b (bidx (nd_rows b) i) (bidx (nd_cols b) j)))\<rparr>))"

definition np_add :: "ndarray \<Rightarrow> ndarray \<Rightarrow> exn + ndarray" where
  "np_add = broadcast (\<lambda>x y. x + y)"

definition np_sub :: "ndarray \<Rightarrow> ndarray \<Rightarrow> exn + ndarray" where
  "np_sub = broadcast (\<lambda>x y. x - y)"

definition np_mul :: "ndarray \<Rightarrow> ndarray \<Rightarrow> exn + ndarray" where
  "np_mul = broadcast (\<lambda>x y. x * y)"

definition np_div :: "ndarray \<Rightarrow> ndarray \<Rightarrow> exn + ndarray" where
  "np_div = broadcast (\<lambda>x y. x / y)"

text \<open>\<^verbatim>\<open>np.log\<close>, elementwise; the model is meaningful on positive entries only.\<close>

definition np_log :: "ndarray \<Rightarrow> ndarray" where
  "np_log a = a\<lparr>nd_at := (\<lambda>i j. ln (nd_at a i j))\<rparr>"

text \<open>The product \<^verbatim>\<open>s * a\<close> of a Python float and an array.\<close>

definition scalar_mul :: "real \<Rightarrow> ndarray \<Rightarrow> ndarray" where
  "scalar_mul s a = a\<lparr>nd_at := (\<lambda>i j. s * nd_at a i j)\<rparr>"

text \<open>\<^verbatim>\<open>x.astype(np.int16)\<close> on an integer sample: the low 16 bits.\<close>

definition astype_int16 :: "int \<Rightarrow> 16 word" where
  "astype_int16 x = word_of_int x"

text \<open>\<^verbatim>\<open>np.concatenate\<close> of a list of one-dimensional arrays; the empty list raises.\<close>

definition np_concatenate :: "'a list list \<Rightarrow> exn + 'a list" where
  "np_concatenate arrays = (if arrays = [] then Inl ConcatenateError else Inr (concat arrays))"

text \<open>Subscripting the dictionary that \<^verbatim>\<open>sio.loadmat\<close> returns.\<close>

definition getitem :: "(string \<rightharpoonup> 'a) \<Rightarrow> string \<Rightarrow> exn + 'a" where
  "getitem d k = (case d k of None \<Rightarrow> Inl (KeyError k) | Some v \<Rightarrow> Inr v)"

subsection \<open>Strings and paths\<close>

definition lower_char :: "char \<Rightarrow> char" where
  "lower_char ch =
     (let n = (of_char ch :: nat) in if 65 \<le> n \<and> n \<le> 90 then char_of (n + 32) else ch)"

definition lower :: "string \<Rightarrow> string" where
  "lower s = map lower_char s"

definition quoted :: "string \<Rightarrow> string" where
  "quoted s = [CHR 0x22] @ s @ [CHR 0x22]"

definition basename :: "string \<Rightarrow> string" where
  "basename p = rev (takeWhile (\<lambda>ch. ch \<noteq> CHR ''/'') (rev p))"

definition path_join :: "string \<Rightarrow> string \<Rightarrow> string" where
  "path_join a b =
     (if b \<noteq> [] \<and> hd b = CHR ''/'' then b
      else if a = [] \<or> last a = CHR ''/'' then a @ b
      else a @ ''/'' @ b)"

subsection \<open>Files\<close>

text \<open>
  A file on disk, as the program observes it: the answers of \<^verbatim>\<open>utils.is_wav\<close>,
  \<^verbatim>\<open>utils.get_sr\<close>, \<^verbatim>\<open>utils.get_num_channels\<close> and \<^verbatim>\<open>utils.get_bitdepth\<close>,
  and the samples that \<^verbatim>\<open>scipy.io.wavfile.read\<close> returns for 16-bit audio.
\<close>

record wav_file =
  is_wav :: bool
  get_sr :: int
  get_num_channels :: int
  get_bitdepth :: int
  wav_samples :: "16 word list"

type_synonym fsys = "string \<rightharpoonup> wav_file"

definition wav_read :: "fsys \<Rightarrow> string \<Rightarrow> exn + (int \<times> 16 word list)" where
  "wav_read fs p =
     (case fs p of
        None \<Rightarrow> Inl (IOError p)
      | Some f \<Rightarrow> if is_wav f then Inr (get_sr f, wav_samples f)
                  else Inl (Exn ''ValueError'' ''File format not understood''))"

definition wav_write :: "fsys \<Rightarrow> string \<Rightarrow> int \<Rightarrow> 16 word list \<Rightarrow> fsys" where
  "wav_write fs p rate samples =
     fs(p \<mapsto> \<lparr>is_wav = True, get_sr = rate, get_num_channels = 1, get_bitdepth = 16,
               wav_samples = samples\<rparr>)"

subsection \<open>The collaborators outside the file\<close>

text \<open>
  What \<^verbatim>\<open>utils.peak_normalization\<close>, \<^verbatim>\<open>utils.wav2logspec\<close>,
  \<^verbatim>\<open>utils.logspec2wav\<close>, \<^verbatim>\<open>decode_model\<close>, \<^verbatim>\<open>traceback.format_exc\<close> and the
  loading of the normalization statistics compute. The window arguments are passed as
  the window length. \<open>decode_model\<close> receives the feature table written for it (nothing,
  if no table was written), the last frame index declared in the script file, and its
  remaining arguments; on success it yields the content of the result file.
\<close>

record env =
  peak_normalization :: "16 word list \<Rightarrow> exn + int list"
  wav2logspec :: "int list \<Rightarrow> int \<Rightarrow> exn + ndarray"
  logspec2wav :: "ndarray \<Rightarrow> int list \<Rightarrow> int \<Rightarrow> int \<Rightarrow> int \<Rightarrow> exn + int list"
  decode_model :: "ndarray option \<Rightarrow> int \<Rightarrow> int \<Rightarrow> bool \<Rightarrow> int \<Rightarrow> real \<Rightarrow> string \<Rightarrow> int
                     \<Rightarrow> exn + (string \<rightharpoonup> ndarray)"
  format_exc :: "exn \<Rightarrow> string"
  load_stats :: "string \<Rightarrow> exn + (ndarray \<times> ndarray)"

text \<open>The options of a run, as \<^verbatim>\<open>main\<close> passes them down.\<close>

record opts =
  use_gpu :: bool
  gpu_id :: int
  truncate_minutes :: real
  mode :: real
  model_select :: string
  stage_select :: int

subsection \<open>The isolated estimator call\<close>

text \<open>
  \<^verbatim>\<open>Process.run\<close> sends \<^verbatim>\<open>None\<close> through the pipe when the target returns and
  the pair \<^verbatim>\<open>(e, tb)\<close> when it raises; \<^verbatim>\<open>Process.exception\<close> is what the parent
  receives after \<^verbatim>\<open>join\<close>.
\<close>

definition Process_exception :: "env \<Rightarrow> exn + 'a \<Rightarrow> (exn \<times> string) option" where
  "Process_exception E outcome =
     (case outcome of Inr _ \<Rightarrow> None | Inl e \<Rightarrow> Some (e, format_exc E e))"

subsection \<open>One chunk\<close>

text \<open>The feature table written for the estimator, by model variant.\<close>

definition htk_features :: "string \<Rightarrow> ndarray \<Rightarrow> ndarray \<Rightarrow> ndarray option" where
  "htk_features model_sel normed_noisy noisy_htkdata =
     (if lower model_sel = ''400h'' then Some normed_noisy
      else if lower model_sel = ''1000h'' then Some noisy_htkdata
      else None)"

text \<open>
  The recovered spectrum, by mode. With a mode other than 1, 2 or 3 the variable is never
  assigned and its use raises.
\<close>

definition recovered_lps ::
    "real \<Rightarrow> ndarray \<Rightarrow> ndarray \<Rightarrow> ndarray \<Rightarrow> ndarray \<Rightarrow> ndarray \<Rightarrow> exn + ndarray" where
  "recovered_lps md noisy_htkdata irm lps global_mean global_var =
     (if md = 1 then np_add noisy_htkdata (np_log irm)
      else if md = 2 then
        and_then (np_mul lps global_var) (\<lambda>t. np_add t global_mean)
      else if md = 3 then
        and_then (np_add noisy_htkdata (np_log irm)) (\<lambda>a.
        and_then (np_mul lps global_var) (\<lambda>t.
        and_then (np_add t global_mean) (\<lambda>b.
        np_add (scalar_mul 0.5 a) (scalar_mul 0.5 b))))
      else Inl UnboundLocalError)"

text \<open>The body of the loop for the samples \<open>temp\<close> of one chunk.\<close>

definition denoise_chunk :: "env \<Rightarrow> opts \<Rightarrow> ndarray \<Rightarrow> ndarray \<Rightarrow> int list \<Rightarrow> exn + int list" where
  "denoise_chunk E opt global_mean global_var temp =
     (if int (length temp) < WL2 then Inr temp
      else
        and_then (wav2logspec E temp WL) (\<lambda>noisy_htkdata.
        and_then (np_sub noisy_htkdata global_mean) (\<lambda>centred.
        and_then (np_div centred global_var) (\<lambda>normed_noisy.
          let cntk_len = int (nd_rows noisy_htkdata) - 1;
              outcome = decode_model E
                          (htk_features (model_select opt) normed_noisy noisy_htkdata)
                          cntk_len NFREQS (use_gpu opt) (gpu_id opt) (mode opt)
                          (model_select opt) (stage_select opt)
          in case Process_exception E outcome of
               Some (e, tb) \<Rightarrow> Inl (Exn (etype e) tb)
             | None \<Rightarrow>
                 and_then outcome (\<lambda>outputs.
                 and_then (getitem outputs ''IRM'') (\<lambda>irm.
                 and_then (getitem outputs ''LPS'') (\<lambda>lps.
                 and_then (recovered_lps (mode opt) noisy_htkdata irm lps
                             global_mean global_var) (\<lambda>recovered.
                 logspec2wav E recovered temp WL WL WL2))))))))"

subsection \<open>One file\<close>

text \<open>The loop over the chunk numbers; an exception in the body leaves the loop.\<close>

fun chunk_loop :: "(int \<Rightarrow> exn + 'a) \<Rightarrow> int list \<Rightarrow> 'a list \<Rightarrow> exn + 'a list" where
  "chunk_loop body [] data_se = Inr data_se"
| "chunk_loop body (i # is) data_se =
     (case body i of
        Inl e \<Rightarrow> Inl e
      | Inr seg \<Rightarrow> chunk_loop body is (data_se @ [seg]))"

text \<open>From the samples read to the samples written.\<close>

definition denoise_samples ::
    "env \<Rightarrow> opts \<Rightarrow> ndarray \<Rightarrow> ndarray \<Rightarrow> int \<Rightarrow> 16 word list \<Rightarrow> exn + 16 word list" where
  "denoise_samples E opt global_mean global_var rate samples =
     and_then (peak_normalization E samples) (\<lambda>wav_data.
       let c = chunk_length (truncate_minutes opt) rate in
       and_then (total_chunks (int (length wav_data)) c) (\<lambda>total.
       and_then (chunk_loop (\<lambda>i. denoise_chunk E opt global_mean global_var
                                     (chunk_at wav_data c i)) [1..total] []) (\<lambda>data_se.
       np_concatenate (map (map astype_int16) data_se))))"

definition denoise_wav ::
    "env \<Rightarrow> string \<Rightarrow> string \<Rightarrow> ndarray \<Rightarrow> ndarray \<Rightarrow> opts \<Rightarrow> fsys \<Rightarrow> exn + fsys" where
  "denoise_wav E src_wav_file dest_wav_file global_mean global_var opt fs =
     and_then (wav_read fs src_wav_file) (\<lambda>(rate, samples).
     and_then (denoise_samples E opt global_mean global_var rate samples) (\<lambda>data_se.
     Inr (wav_write fs dest_wav_file SR data_se)))"

subsection \<open>The batch\<close>

text \<open>The state of a run: the files on disk and the messages given to \<^verbatim>\<open>utils.error\<close>.\<close>

record world =
  files :: fsys
  error_log :: "string list"

definition utils_error :: "world \<Rightarrow> string \<Rightarrow> world" where
  "utils_error w msg = w\<lparr>error_log := error_log w @ [msg]\<rparr>"

text \<open>The basic checks of an input file: the message of the first check that fails.\<close>

definition basic_checks :: "fsys \<Rightarrow> string \<Rightarrow> string option" where
  "basic_checks fs src_wav_file =
     (case fs src_wav_file of
        None \<Rightarrow> Some (''File '' @ quoted src_wav_file @ '' does not exist. Skipping.'')
      | Some f \<Rightarrow>
          if \<not> is_wav f then
            Some (''File '' @ quoted src_wav_file @ '' is not WAV. Skipping.'')
          else if get_sr f \<noteq> SR then
            Some (''Sample rate of file '' @ quoted src_wav_file @ '' is not 16000 Hz. Skipping.'')
          else if get_num_channels f \<noteq> NUM_CHANNELS then
            Some (''File '' @ quoted src_wav_file @ '' is not monochannel. Skipping.'')
          else if get_bitdepth f \<noteq> BITDEPTH then
            Some (''Bitdepth of file '' @ quoted src_wav_file @ '' is not 16. Skipping.'')
          else None)"

definition problem_message :: "bool \<Rightarrow> string \<Rightarrow> exn \<Rightarrow> string" where
  "problem_message verbose src_wav_file e =
     (let msg = ''Problem encountered while processing file '' @ quoted src_wav_file
                @ ''. Skipping.''
      in if verbose then msg @ '' Full error output:'' @ [CHR 0x0A] @ emsg e else msg)"

text \<open>One pass of the loop over the input files.\<close>

definition process_file ::
    "env \<Rightarrow> string \<Rightarrow> bool \<Rightarrow> ndarray \<Rightarrow> ndarray \<Rightarrow> opts \<Rightarrow> string \<Rightarrow> world \<Rightarrow> world" where
  "process_file E output_dir verbose global_mean global_var opt src_wav_file w =
     (case basic_checks (files w) src_wav_file of
        Some msg \<Rightarrow> utils_error w msg
      | None \<Rightarrow>
          (let bn = basename src_wav_file;
               dest_wav_file = path_join output_dir bn
           in case denoise_wav E src_wav_file dest_wav_file global_mean global_var opt
                     (files w) of
                Inr fs' \<Rightarrow> w\<lparr>files := fs'\<rparr>
              | Inl e \<Rightarrow> utils_error w (problem_message verbose src_wav_file e)))"

fun denoise_files ::
    "env \<Rightarrow> string \<Rightarrow> bool \<Rightarrow> ndarray \<Rightarrow> ndarray \<Rightarrow> opts \<Rightarrow> string list \<Rightarrow> world \<Rightarrow> world" where
  "denoise_files E output_dir verbose global_mean global_var opt [] w = w"
| "denoise_files E output_dir verbose global_mean global_var opt (src_wav_file # rest) w =
     denoise_files E output_dir verbose global_mean global_var opt rest
       (process_file E output_dir verbose global_mean global_var opt src_wav_file w)"

text \<open>
  \<^verbatim>\<open>main_denoising\<close>: the statistics of the selected model are loaded once, before
  the loop, and an exception there ends the run.
\<close>

definition main_denoising ::
    "env \<Rightarrow> string list \<Rightarrow> string \<Rightarrow> bool \<Rightarrow> opts \<Rightarrow> world \<Rightarrow> exn + world" where
  "main_denoising E wav_files output_dir verbose opt w =
     and_then (load_stats E (model_select opt)) (\<lambda>(global_mean, global_var).
     Inr (denoise_files E output_dir verbose global_mean global_var opt wav_files w))"

subsection \<open>Example instances of the collaborators\<close>

text \<open>
  Concrete values for the parameters of the model, on which the definitions above can be
  evaluated: a constant array, an estimator that returns a fixed result file, a peak
  normalization that leaves the samples as they are and one that scales them so that the
  largest magnitude becomes 32766, and an estimator that raises.
\<close>

definition const_array :: "nat \<Rightarrow> nat \<Rightarrow> real \<Rightarrow> ndarray" where
  "const_array r c v = \<lparr>nd_rows = r, nd_cols = c, nd_at = (\<lambda>i j. v)\<rparr>"

definition example_outputs :: "string \<rightharpoonup> ndarray" where
  "example_outputs = [''IRM'' \<mapsto> const_array 2 3 1, ''LPS'' \<mapsto> const_array 2 3 2]"

definition example_env :: env where
  "example_env =
     \<lparr>peak_normalization = (\<lambda>samples. Inr (map sint samples)),
      wav2logspec = (\<lambda>temp wl. Inr (const_array 2 3 4)),
      logspec2wav = (\<lambda>recovered temp wl n_per_seg noverlap.
                       Inr (map (\<lambda>x. \<lfloor>nd_at recovered 0 0\<rfloor>) temp)),
      decode_model = (\<lambda>features cntk_len dim gpu gid md variant stage. Inr example_outputs),
      format_exc = (\<lambda>e. ''Traceback (most recent call last): '' @ etype e @ '': '' @ emsg e),
      load_stats = (\<lambda>variant. Inr (const_array 1 3 5, const_array 1 3 2))\<rparr>"




definition example_opts :: opts where
  "example_opts =
     \<lparr>use_gpu = False, gpu_id = 0, truncate_minutes = 10, mode = 1,
      model_select = ''1000h'', stage_select = 3\<rparr>"

definition example_file :: "16 word list \<Rightarrow> wav_file" where
  "example_file samples =
     \<lparr>is_wav = True, get_sr = 16000, get_num_channels = 1, get_bitdepth = 16,
      wav_samples = samples\<rparr>"

definition example_mean :: ndarray where
  "example_mean = const_array 1 3 5"

definition example_var :: ndarray where
  "example_var = const_array 1 3 2"

definition example_world :: world where
  "example_world =
     \<lparr>files = [''in/a.wav'' \<mapsto> (example_file [7])\<lparr>get_sr := 8000\<rparr>,
               ''in/b.wav'' \<mapsto> example_file [1],
               ''in/e.wav'' \<mapsto> example_file []],
      error_log = []\<rparr>"

section \<open>Properties\<close>

subsection \<open>Chunk boundaries\<close>

lemma py_int_of_int: "py_int (of_int k) = k"
  by (simp add: py_int_def)

lemma total_chunks_nonzero:
  "c \<noteq> 0 \<Longrightarrow> total_chunks sz c = Inr (- (- sz div c))"
  unfolding total_chunks_def py_int_of_int by (simp add: ceiling_divide_eq_div)









subsection \<open>Sequencing, the loop over the chunks and the loop over the files\<close>

lemma and_then_Inl [simp]: "and_then (Inl e) f = Inl e"
  by (simp add: and_then_def)

lemma and_then_Inr [simp]: "and_then (Inr x) f = f x"
  by (simp add: and_then_def)



lemma chunk_loop_total:
  "(\<forall>j\<in>set js. \<exists>seg. body j = Inr seg) \<Longrightarrow> \<exists>segs. chunk_loop body js acc = Inr segs"
  by (induction js arbitrary: acc) auto



lemma denoise_chunk_short:
  "int (length temp) < 256 \<Longrightarrow> denoise_chunk E opt gm gv temp = Inr temp"
  by (simp add: denoise_chunk_def WL2_def WL_def)




lemma denoise_files_append:
  "denoise_files E output_dir verbose gm gv opt (pre @ rest) w =
     denoise_files E output_dir verbose gm gv opt rest
       (denoise_files E output_dir verbose gm gv opt pre w)"
  by (induction pre arbitrary: w) simp_all

lemma basic_checks_None_iff:
  "basic_checks fs src = None \<longleftrightarrow>
     (\<exists>f. fs src = Some f \<and> is_wav f \<and> get_sr f = 16000 \<and> get_num_channels f = 1 \<and>
          get_bitdepth f = 16)"
  by (auto simp: basic_checks_def SR_def NUM_CHANNELS_def BITDEPTH_def split: option.splits)

lemma process_file_checks_fail:
  "basic_checks (files w) src = Some m \<Longrightarrow>
     process_file E output_dir verbose gm gv opt src w = w\<lparr>error_log := error_log w @ [m]\<rparr>"
  by (simp add: process_file_def utils_error_def)

lemma process_file_raises:
  "basic_checks (files w) src = None \<Longrightarrow>
   denoise_wav E src (path_join output_dir (basename src)) gm gv opt (files w) = Inl e \<Longrightarrow>
     process_file E output_dir verbose gm gv opt src w =
       w\<lparr>error_log := error_log w @ [problem_message verbose src e]\<rparr>"
  by (simp add: process_file_def utils_error_def Let_def)

subsection \<open>Evaluation on the example instances\<close>

lemma chunk_length_default: "chunk_length 10 16000 = 9600000"
  by (simp add: chunk_length_def py_int_def)


lemma upto_one_one: "[1..1] = [1::int]"
  by (simp add: upto_rec1)

lemma total_chunks_one: "total_chunks 1 9600000 = Inr 1"
  by (simp add: total_chunks_nonzero)

lemma chunk_at_single: "chunk_at [x] 9600000 1 = [x]"
  by (simp add: chunk_at_def py_slice_def slice_index_def)

lemma example_single_sample: "denoise_samples example_env example_opts gm gv 16000 [1] = Inr [1]"
proof -
  have pn: "peak_normalization example_env [1] = Inr [1]"
    by (simp add: example_env_def)
  have tm: "truncate_minutes example_opts = 10" by (simp add: example_opts_def)
  show ?thesis
    by (simp add: denoise_samples_def pn tm chunk_length_default total_chunks_one upto_one_one chunk_at_single
        denoise_chunk_short np_concatenate_def astype_int16_def)
qed


lemma example_file_a: "files example_world ''in/a.wav'' = Some ((example_file [7])\<lparr>get_sr := 8000\<rparr>)"
  by (simp add: example_world_def)

lemma example_file_b: "files example_world ''in/b.wav'' = Some (example_file [1])"
  by (simp add: example_world_def)


lemma example_checks_a:
  "basic_checks (files example_world) ''in/a.wav'' =
     Some (''Sample rate of file '' @ quoted ''in/a.wav'' @ '' is not 16000 Hz. Skipping.'')"
  by (simp add: basic_checks_def example_file_a example_file_def SR_def)

lemma example_dest_b: "path_join ''out'' (basename ''in/b.wav'') = ''out/b.wav''"
  by (simp add: path_join_def basename_def)

lemma example_denoise_wav_b:
  "files w ''in/b.wav'' = Some (example_file [1]) \<Longrightarrow>
   denoise_wav example_env ''in/b.wav'' ''out/b.wav'' gm gv example_opts (files w) =
     Inr ((files w)(''out/b.wav'' \<mapsto> example_file [1]))"
  by (simp add: denoise_wav_def wav_read_def example_file_def example_single_sample wav_write_def SR_def)

lemma example_process_b:
  assumes "files w ''in/b.wav'' = Some (example_file [1])"
  shows "process_file example_env ''out'' verbose gm gv example_opts ''in/b.wav'' w =
     w\<lparr>files := (files w)(''out/b.wav'' \<mapsto> example_file [1])\<rparr>"
proof -
  have "basic_checks (files w) ''in/b.wav'' = None"
    using assms by (simp add: basic_checks_None_iff example_file_def)
  then show ?thesis
    by (simp add: process_file_def Let_def example_dest_b example_denoise_wav_b[OF assms])
qed

lemma example_long_chunk: "WL2 \<le> int (length (replicate 256 (0::int)))"
  by (simp add: WL2_def WL_def)

lemma example_centred: "np_sub (const_array 2 3 4) example_mean = Inr (const_array 2 3 (- 1))"
  by (simp add: np_sub_def broadcast_def bdim_def const_array_def example_mean_def)

lemma example_normed: "np_div (const_array 2 3 (- 1)) example_var = Inr (const_array 2 3 (- 1 / 2))"
  by (simp add: np_div_def broadcast_def bdim_def const_array_def example_var_def)

lemma example_irm: "example_outputs ''IRM'' = Some (const_array 2 3 1)"
  by (simp add: example_outputs_def)

lemma example_lps: "example_outputs ''LPS'' = Some (const_array 2 3 2)"
  by (simp add: example_outputs_def)

lemma example_lower: "lower ''400H'' = ''400h''"
  by code_simp

subsection \<open>Short chunks\<close>





subsection \<open>Assembling the output\<close>



subsection \<open>Chunk lengths below 1\<close>







subsection \<open>The batch\<close>

text \<open>
  Claim C6. A file of the batch that fails a basic check (existence, WAV format, sample
  rate 16000, one channel, 16 bits) or for which \<^verbatim>\<open>denoise_wav\<close> raises is skipped:
  one message is logged, the files on disk are unchanged, and the loop goes on with the
  remaining files. For an exception the message is the fixed text, followed by the text
  of the exception in verbose mode only.
\<close>

theorem failing_file_is_skipped:
  assumes w: "w = denoise_files E output_dir verbose gm gv opt pre w0"
      and fails: "files w src = None
           \<or> (\<exists>f. files w src = Some f \<and>
                  (\<not> is_wav f \<or> get_sr f \<noteq> 16000 \<or> get_num_channels f \<noteq> 1 \<or>
                   get_bitdepth f \<noteq> 16))
           \<or> (\<exists>e. denoise_wav E src (path_join output_dir (basename src)) gm gv opt (files w)
                    = Inl e)"
  shows "\<exists>msg.
           process_file E output_dir verbose gm gv opt src w = w\<lparr>error_log := error_log w @ [msg]\<rparr> \<and>
           files (process_file E output_dir verbose gm gv opt src w) = files w \<and>
           denoise_files E output_dir verbose gm gv opt (pre @ src # rest) w0 =
             denoise_files E output_dir verbose gm gv opt rest (w\<lparr>error_log := error_log w @ [msg]\<rparr>) \<and>
           (case basic_checks (files w) src of
              Some m \<Rightarrow> msg = m
            | None \<Rightarrow>
                (\<exists>e. denoise_wav E src (path_join output_dir (basename src)) gm gv opt (files w)
                        = Inl e \<and>
                     msg = ''Problem encountered while processing file '' @ quoted src
                           @ ''. Skipping.''
                           @ (if verbose then '' Full error output:'' @ [CHR 0x0A] @ emsg e
                              else [])))"
proof (cases "basic_checks (files w) src")
  case (Some m)
  have "denoise_files E output_dir verbose gm gv opt (pre @ src # rest) w0 =
          denoise_files E output_dir verbose gm gv opt rest
            (process_file E output_dir verbose gm gv opt src w)"
    by (simp add: denoise_files_append w)
  with process_file_checks_fail[OF Some] Some show ?thesis by simp
next
  case None
  then have "\<not> (files w src = None
           \<or> (\<exists>f. files w src = Some f \<and>
                  (\<not> is_wav f \<or> get_sr f \<noteq> 16000 \<or> get_num_channels f \<noteq> 1 \<or>
                   get_bitdepth f \<noteq> 16)))"
    by (auto simp: basic_checks_None_iff)
  with fails obtain e where
    e: "denoise_wav E src (path_join output_dir (basename src)) gm gv opt (files w) = Inl e"
    by blast
  have "denoise_files E output_dir verbose gm gv opt (pre @ src # rest) w0 =
          denoise_files E output_dir verbose gm gv opt rest
            (process_file E output_dir verbose gm gv opt src w)"
    by (simp add: denoise_files_append w)
  with process_file_raises[OF None e] None e show ?thesis
    by (simp add: problem_message_def)
qed

theorem failing_file_is_skipped_witness:
  "denoise_files example_env ''out'' True example_mean example_var example_opts
     [''in/a.wav'', ''in/b.wav''] example_world =
   \<lparr>files = (files example_world)(''out/b.wav'' \<mapsto> example_file [1]),
    error_log = [''Sample rate of file '' @ quoted ''in/a.wav'' @ '' is not 16000 Hz. Skipping.'']\<rparr>"
proof -
  have w: "example_world =
             denoise_files example_env ''out'' True example_mean example_var example_opts []
               example_world"
    by simp
  have fails: "files example_world ''in/a.wav'' = None
           \<or> (\<exists>f. files example_world ''in/a.wav'' = Some f \<and>
                  (\<not> is_wav f \<or> get_sr f \<noteq> 16000 \<or> get_num_channels f \<noteq> 1 \<or>
                   get_bitdepth f \<noteq> 16))
           \<or> (\<exists>e. denoise_wav example_env ''in/a.wav'' (path_join ''out'' (basename ''in/a.wav''))
                     example_mean example_var example_opts (files example_world) = Inl e)"
    by (simp add: example_file_a)
  from failing_file_is_skipped [OF w fails, of "[''in/b.wav'']"]
  have "denoise_files example_env ''out'' True example_mean example_var example_opts
          [''in/a.wav'', ''in/b.wav''] example_world =
        denoise_files example_env ''out'' True example_mean example_var example_opts [''in/b.wav'']
          (example_world\<lparr>error_log := error_log example_world @
             [''Sample rate of file '' @ quoted ''in/a.wav'' @ '' is not 16000 Hz. Skipping.'']\<rparr>)"
    by (auto simp: example_checks_a)
  also have "\<dots> = \<lparr>files = (files example_world)(''out/b.wav'' \<mapsto> example_file [1]),
    error_log = [''Sample rate of file '' @ quoted ''in/a.wav'' @ '' is not 16000 Hz. Skipping.'']\<rparr>"
    by (simp add: example_process_b example_file_b) (simp add: example_world_def)
  finally show ?thesis .
qed




subsection \<open>The isolated estimator call\<close>

lemma denoise_chunk_estimated:
  assumes long: "WL2 \<le> int (length temp)"
      and feat: "wav2logspec E temp WL = Inr noisy"
      and sub: "np_sub noisy gm = Inr centred"
      and dv: "np_div centred gv = Inr normed"
      and est: "decode_model E (htk_features (model_select opt) normed noisy)
                  (int (nd_rows noisy) - 1) NFREQS (use_gpu opt) (gpu_id opt) (mode opt)
                  (model_select opt) (stage_select opt) = Inr outputs"
      and irm: "outputs ''IRM'' = Some irm"
      and lps: "outputs ''LPS'' = Some lps"
  shows "denoise_chunk E opt gm gv temp =
           and_then (recovered_lps (mode opt) noisy irm lps gm gv)
             (\<lambda>recovered. logspec2wav E recovered temp WL WL WL2)"
  using long
  by (simp add: denoise_chunk_def feat sub dv est Process_exception_def getitem_def irm lps Let_def)



subsection \<open>The recovered spectrum\<close>

lemma bidx_less: "i < n \<Longrightarrow> bidx n i = i"
  by (auto simp: bidx_def)

lemma broadcast_same_shape:
  assumes "nd_rows b = nd_rows a" "nd_cols b = nd_cols a"
  shows "\<exists>r. broadcast f a b = Inr r \<and> nd_rows r = nd_rows a \<and> nd_cols r = nd_cols a \<and>
             (\<forall>i<nd_rows a. \<forall>j<nd_cols a. nd_at r i j = f (nd_at a i j) (nd_at b i j))"
  using assms by (simp add: broadcast_def bdim_def bidx_less)

lemma broadcast_row_vector:
  assumes "nd_rows b = 1" "nd_cols b = nd_cols a"
  shows "\<exists>r. broadcast f a b = Inr r \<and> nd_rows r = nd_rows a \<and> nd_cols r = nd_cols a \<and>
             (\<forall>i<nd_rows a. \<forall>j<nd_cols a. nd_at r i j = f (nd_at a i j) (nd_at b 0 j))"
  using assms by (auto simp add: broadcast_def bdim_def bidx_less) (simp_all add: bidx_def)

lemma np_log_shape [simp]:
  "nd_rows (np_log a) = nd_rows a" "nd_cols (np_log a) = nd_cols a"
  "nd_at (np_log a) i j = ln (nd_at a i j)"
  by (simp_all add: np_log_def)

lemma scalar_mul_shape [simp]:
  "nd_rows (scalar_mul s a) = nd_rows a" "nd_cols (scalar_mul s a) = nd_cols a"
  "nd_at (scalar_mul s a) i j = s * nd_at a i j"
  by (simp_all add: scalar_mul_def)

lemma irm_only_recovered:
  assumes "nd_rows irm = nd_rows noisy" "nd_cols irm = nd_cols noisy"
  shows "\<exists>r. recovered_lps 1 noisy irm lps gm gv = Inr r \<and>
             nd_rows r = nd_rows noisy \<and> nd_cols r = nd_cols noisy \<and>
             (\<forall>i<nd_rows noisy. \<forall>j<nd_cols noisy.
                 nd_at r i j = nd_at noisy i j + ln (nd_at irm i j))"
  using broadcast_same_shape[of "np_log irm" noisy "\<lambda>x y. x + y"] assms
  by (simp add: recovered_lps_def np_add_def)

lemma lps_only_recovered:
  assumes "nd_rows gm = 1" "nd_cols gm = nd_cols lps" "nd_rows gv = 1" "nd_cols gv = nd_cols lps"
  shows "\<exists>r. recovered_lps 2 noisy irm lps gm gv = Inr r \<and>
             nd_rows r = nd_rows lps \<and> nd_cols r = nd_cols lps \<and>
             (\<forall>i<nd_rows lps. \<forall>j<nd_cols lps.
                 nd_at r i j = nd_at lps i j * nd_at gv 0 j + nd_at gm 0 j)"
proof -
  from broadcast_row_vector[of gv lps "\<lambda>x y. x * y"] assms obtain t where
    t: "np_mul lps gv = Inr t" "nd_rows t = nd_rows lps" "nd_cols t = nd_cols lps"
       "\<forall>i<nd_rows lps. \<forall>j<nd_cols lps. nd_at t i j = nd_at lps i j * nd_at gv 0 j"
    by (auto simp: np_mul_def)
  from broadcast_row_vector[of gm t "\<lambda>x y. x + y"] assms t obtain r where
    r: "np_add t gm = Inr r" "nd_rows r = nd_rows lps" "nd_cols r = nd_cols lps"
       "\<forall>i<nd_rows lps. \<forall>j<nd_cols lps. nd_at r i j = nd_at t i j + nd_at gm 0 j"
    by (auto simp: np_add_def)
  show ?thesis using t r by (simp add: recovered_lps_def and_then_def)
qed

lemma blend_recovered_eq:
  "recovered_lps 3 noisy irm lps gm gv =
     and_then (recovered_lps 1 noisy irm lps gm gv) (\<lambda>a.
     and_then (recovered_lps 2 noisy irm lps gm gv) (\<lambda>b.
     np_add (scalar_mul 0.5 a) (scalar_mul 0.5 b)))"
  by (simp add: recovered_lps_def and_then_def split: sum.splits)

lemma blend_recovered:
  assumes "nd_rows irm = nd_rows noisy" "nd_cols irm = nd_cols noisy"
      and "nd_rows lps = nd_rows noisy" "nd_cols lps = nd_cols noisy"
      and "nd_rows gm = 1" "nd_cols gm = nd_cols noisy" "nd_rows gv = 1" "nd_cols gv = nd_cols noisy"
  shows "\<exists>r. recovered_lps 3 noisy irm lps gm gv = Inr r \<and>
             nd_rows r = nd_rows noisy \<and> nd_cols r = nd_cols noisy \<and>
             (\<forall>i<nd_rows noisy. \<forall>j<nd_cols noisy.
                 nd_at r i j = 0.5 * (nd_at noisy i j + ln (nd_at irm i j))
                             + 0.5 * (nd_at lps i j * nd_at gv 0 j + nd_at gm 0 j))"
proof -
  from irm_only_recovered[OF assms(1,2), of lps gm gv] obtain a where
    a: "recovered_lps 1 noisy irm lps gm gv = Inr a"
       "nd_rows a = nd_rows noisy" "nd_cols a = nd_cols noisy"
       "\<forall>i<nd_rows noisy. \<forall>j<nd_cols noisy. nd_at a i j = nd_at noisy i j + ln (nd_at irm i j)"
    by blast
  from lps_only_recovered[of gm lps gv noisy irm] assms obtain b where
    b: "recovered_lps 2 noisy irm lps gm gv = Inr b"
       "nd_rows b = nd_rows noisy" "nd_cols b = nd_cols noisy"
       "\<forall>i<nd_rows noisy. \<forall>j<nd_cols noisy. nd_at b i j = nd_at lps i j * nd_at gv 0 j + nd_at gm 0 j"
    by auto
  from broadcast_same_shape[of "scalar_mul 0.5 b" "scalar_mul 0.5 a" "\<lambda>x y. x + y"] a b
  obtain r where r: "np_add (scalar_mul 0.5 a) (scalar_mul 0.5 b) = Inr r"
      "nd_rows r = nd_rows noisy" "nd_cols r = nd_cols noisy"
      "\<forall>i<nd_rows noisy. \<forall>j<nd_cols noisy. nd_at r i j = 0.5 * nd_at a i j + 0.5 * nd_at b i j"
    by (auto simp: np_add_def)
  have "recovered_lps 3 noisy irm lps gm gv = Inr r"
    using r(1) by (simp add: blend_recovered_eq a(1) b(1))
  with r a(4) b(4) show ?thesis by simp
qed

lemma cmvn_entries:
  assumes sub: "np_sub noisy gm = Inr centred"
      and dv: "np_div centred gv = Inr normed"
      and "nd_rows gm = 1" "nd_cols gm = nd_cols noisy" "nd_rows gv = 1" "nd_cols gv = nd_cols noisy"
  shows "nd_rows normed = nd_rows noisy \<and> nd_cols normed = nd_cols noisy \<and>
         (\<forall>i<nd_rows noisy. \<forall>j<nd_cols noisy.
             nd_at normed i j = (nd_at noisy i j - nd_at gm 0 j) / nd_at gv 0 j)"
proof -
  from broadcast_row_vector[of gm noisy "\<lambda>x y. x - y"] assms(3,4) sub
  have c: "nd_rows centred = nd_rows noisy" "nd_cols centred = nd_cols noisy"
     "\<forall>i<nd_rows noisy. \<forall>j<nd_cols noisy. nd_at centred i j = nd_at noisy i j - nd_at gm 0 j"
    by (auto simp: np_sub_def)
  from broadcast_row_vector[of gv centred "\<lambda>x y. x / y"] assms(5,6) c dv
  have "nd_rows normed = nd_rows noisy" "nd_cols normed = nd_cols noisy"
     "\<forall>i<nd_rows noisy. \<forall>j<nd_cols noisy. nd_at normed i j = nd_at centred i j / nd_at gv 0 j"
    by (auto simp: np_div_def)
  with c show ?thesis by simp
qed

text \<open>
  Claim C3. For a chunk processed in mode 1, with an IRM of the shape of the feature
  matrix and entries in \<open>(0, 1]\<close>, the recovered spectrum handed to the reconstruction is,
  entry by entry, the unnormalized feature matrix of the chunk plus the natural logarithm
  of the IRM.
\<close>

theorem irm_only_adds_log_mask:
  assumes long: "WL2 \<le> int (length temp)"
      and feat: "wav2logspec E temp WL = Inr noisy"
      and sub: "np_sub noisy gm = Inr centred"
      and dv: "np_div centred gv = Inr normed"
      and est: "decode_model E (htk_features (model_select opt) normed noisy)
                  (int (nd_rows noisy) - 1) NFREQS (use_gpu opt) (gpu_id opt) (mode opt)
                  (model_select opt) (stage_select opt) = Inr outputs"
      and irm: "outputs ''IRM'' = Some irm"
      and lps: "outputs ''LPS'' = Some lps"
      and md: "mode opt = 1"
      and shape: "nd_rows irm = nd_rows noisy" "nd_cols irm = nd_cols noisy"
      and range: "\<forall>i<nd_rows irm. \<forall>j<nd_cols irm. 0 < nd_at irm i j \<and> nd_at irm i j \<le> 1"
  shows "\<exists>r. recovered_lps (mode opt) noisy irm lps gm gv = Inr r \<and>
             denoise_chunk E opt gm gv temp = logspec2wav E r temp WL WL WL2 \<and>
             nd_rows r = nd_rows noisy \<and> nd_cols r = nd_cols noisy \<and>
             (\<forall>i<nd_rows noisy. \<forall>j<nd_cols noisy.
                 nd_at r i j = nd_at noisy i j + ln (nd_at irm i j))"
proof -
  from irm_only_recovered[OF shape, of lps gm gv] obtain r where
    r: "recovered_lps 1 noisy irm lps gm gv = Inr r"
       "nd_rows r = nd_rows noisy" "nd_cols r = nd_cols noisy"
       "\<forall>i<nd_rows noisy. \<forall>j<nd_cols noisy. nd_at r i j = nd_at noisy i j + ln (nd_at irm i j)"
    by blast
  have "denoise_chunk E opt gm gv temp = logspec2wav E r temp WL WL WL2"
    by (simp add: denoise_chunk_estimated[OF long feat sub dv est irm lps] md r(1))
  with r md show ?thesis by simp
qed

theorem irm_only_adds_log_mask_witness:
  "denoise_chunk example_env example_opts example_mean example_var (replicate 256 0) =
     Inr (replicate 256 4)"
proof -
  have feat: "wav2logspec example_env (replicate 256 0) WL = Inr (const_array 2 3 4)"
    by (simp add: example_env_def)
  have est: "decode_model example_env
               (htk_features (model_select example_opts) (const_array 2 3 (- 1 / 2))
                  (const_array 2 3 4))
               (int (nd_rows (const_array 2 3 4)) - 1) NFREQS (use_gpu example_opts)
               (gpu_id example_opts) (mode example_opts) (model_select example_opts)
               (stage_select example_opts) = Inr example_outputs"
    by (simp add: example_env_def)
  have md: "mode example_opts = 1" by (simp add: example_opts_def)
  have shape: "nd_rows (const_array 2 3 1) = nd_rows (const_array 2 3 4)"
              "nd_cols (const_array 2 3 1) = nd_cols (const_array 2 3 4)"
    by (simp_all add: const_array_def)
  have range: "\<forall>i<nd_rows (const_array 2 3 1). \<forall>j<nd_cols (const_array 2 3 1).
                 0 < nd_at (const_array 2 3 1) i j \<and> nd_at (const_array 2 3 1) i j \<le> 1"
    by (simp add: const_array_def)
  from irm_only_adds_log_mask [OF example_long_chunk feat example_centred example_normed est example_irm example_lps md shape range]
  obtain r where
    d: "denoise_chunk example_env example_opts example_mean example_var (replicate 256 0) =
          logspec2wav example_env r (replicate 256 0) WL WL WL2"
    and r: "\<forall>i<nd_rows (const_array 2 3 4). \<forall>j<nd_cols (const_array 2 3 4).
              nd_at r i j = nd_at (const_array 2 3 4) i j + ln (nd_at (const_array 2 3 1) i j)"
    by blast
  from r have "nd_at r 0 0 = 4" by (simp add: const_array_def)
  with d show ?thesis by (simp add: example_env_def map_replicate_const)
qed

text \<open>
  Claim C4. For a chunk processed in mode 2 or 3, the variant \<^verbatim>\<open>400h\<close> sends the
  features normalized as \<open>(feature - mean) / variance\<close> and the variant \<^verbatim>\<open>1000h\<close> sends
  them raw; in both the LPS estimate returned is de-normalized as \<open>lps * variance + mean\<close>
  before reconstruction: in mode 2 this is the recovered spectrum, in mode 3 it is
  averaged with the masked features.
\<close>

theorem lps_estimate_is_denormalized:
  assumes long: "WL2 \<le> int (length temp)"
      and feat: "wav2logspec E temp WL = Inr noisy"
      and sub: "np_sub noisy gm = Inr centred"
      and dv: "np_div centred gv = Inr normed"
      and stats: "nd_rows gm = 1" "nd_cols gm = nd_cols noisy"
                 "nd_rows gv = 1" "nd_cols gv = nd_cols noisy"
      and variant: "lower (model_select opt) = ''400h'' \<or> lower (model_select opt) = ''1000h''"
      and md: "mode opt = 2 \<or> mode opt = 3"
      and est: "decode_model E (htk_features (model_select opt) normed noisy)
                  (int (nd_rows noisy) - 1) NFREQS (use_gpu opt) (gpu_id opt) (mode opt)
                  (model_select opt) (stage_select opt) = Inr outputs"
      and irm: "outputs ''IRM'' = Some irm"
      and lps: "outputs ''LPS'' = Some lps"
      and shape: "nd_rows irm = nd_rows noisy" "nd_cols irm = nd_cols noisy"
                 "nd_rows lps = nd_rows noisy" "nd_cols lps = nd_cols noisy"
  shows "htk_features (model_select opt) normed noisy =
           (if lower (model_select opt) = ''400h'' then Some normed else Some noisy) \<and>
         nd_rows normed = nd_rows noisy \<and> nd_cols normed = nd_cols noisy \<and>
         (\<forall>i<nd_rows noisy. \<forall>j<nd_cols noisy.
             nd_at normed i j = (nd_at noisy i j - nd_at gm 0 j) / nd_at gv 0 j) \<and>
         (\<exists>r. recovered_lps (mode opt) noisy irm lps gm gv = Inr r \<and>
              denoise_chunk E opt gm gv temp = logspec2wav E r temp WL WL WL2 \<and>
              nd_rows r = nd_rows noisy \<and> nd_cols r = nd_cols noisy \<and>
              (\<forall>i<nd_rows noisy. \<forall>j<nd_cols noisy.
                  nd_at r i j =
                    (if mode opt = 2 then nd_at lps i j * nd_at gv 0 j + nd_at gm 0 j
                     else 0.5 * (nd_at noisy i j + nd_at (np_log irm) i j)
                        + 0.5 * (nd_at lps i j * nd_at gv 0 j + nd_at gm 0 j))))"
proof -
  have sent: "htk_features (model_select opt) normed noisy =
           (if lower (model_select opt) = ''400h'' then Some normed else Some noisy)"
    using variant by (auto simp: htk_features_def)
  note norm = cmvn_entries[OF sub dv stats]
  note chunk = denoise_chunk_estimated[OF long feat sub dv est irm lps]
  have "\<exists>r. recovered_lps (mode opt) noisy irm lps gm gv = Inr r \<and>
              denoise_chunk E opt gm gv temp = logspec2wav E r temp WL WL WL2 \<and>
              nd_rows r = nd_rows noisy \<and> nd_cols r = nd_cols noisy \<and>
              (\<forall>i<nd_rows noisy. \<forall>j<nd_cols noisy.
                  nd_at r i j =
                    (if mode opt = 2 then nd_at lps i j * nd_at gv 0 j + nd_at gm 0 j
                     else 0.5 * (nd_at noisy i j + nd_at (np_log irm) i j)
                        + 0.5 * (nd_at lps i j * nd_at gv 0 j + nd_at gm 0 j)))"
  proof (cases "mode opt = 2")
    case True
    from lps_only_recovered[of gm lps gv noisy irm] stats shape obtain r where
      r: "recovered_lps 2 noisy irm lps gm gv = Inr r"
         "nd_rows r = nd_rows noisy" "nd_cols r = nd_cols noisy"
         "\<forall>i<nd_rows noisy. \<forall>j<nd_cols noisy.
             nd_at r i j = nd_at lps i j * nd_at gv 0 j + nd_at gm 0 j"
      by auto
    have "denoise_chunk E opt gm gv temp = logspec2wav E r temp WL WL WL2"
      by (simp add: chunk True r(1))
    with r True show ?thesis by simp
  next
    case False
    with md have m3: "mode opt = 3" by simp
    from blend_recovered[OF shape stats] obtain r where
      r: "recovered_lps 3 noisy irm lps gm gv = Inr r"
         "nd_rows r = nd_rows noisy" "nd_cols r = nd_cols noisy"
         "\<forall>i<nd_rows noisy. \<forall>j<nd_cols noisy.
                 nd_at r i j = 0.5 * (nd_at noisy i j + ln (nd_at irm i j))
                             + 0.5 * (nd_at lps i j * nd_at gv 0 j + nd_at gm 0 j)"
      by blast
    have "denoise_chunk E opt gm gv temp = logspec2wav E r temp WL WL WL2"
      by (simp add: chunk m3 r(1))
    with r m3 show ?thesis by simp
  qed
  with sent norm show ?thesis by blast
qed

theorem lps_estimate_is_denormalized_witness:
  "denoise_chunk example_env (example_opts\<lparr>mode := 2, model_select := ''400H''\<rparr>)
     example_mean example_var (replicate 256 0) = Inr (replicate 256 9)"
proof -
  let ?opt = "example_opts\<lparr>mode := 2, model_select := ''400H''\<rparr>"
  have feat: "wav2logspec example_env (replicate 256 0) WL = Inr (const_array 2 3 4)"
    by (simp add: example_env_def)
  have est: "decode_model example_env
               (htk_features (model_select ?opt) (const_array 2 3 (- 1 / 2))
                  (const_array 2 3 4))
               (int (nd_rows (const_array 2 3 4)) - 1) NFREQS (use_gpu ?opt)
               (gpu_id ?opt) (mode ?opt) (model_select ?opt)
               (stage_select ?opt) = Inr example_outputs"
    by (simp add: example_env_def)
  have stats: "nd_rows example_mean = 1" "nd_cols example_mean = nd_cols (const_array 2 3 4)"
              "nd_rows example_var = 1" "nd_cols example_var = nd_cols (const_array 2 3 4)"
    by (simp_all add: const_array_def example_mean_def example_var_def)
  have variant: "lower (model_select ?opt) = ''400h'' \<or> lower (model_select ?opt) = ''1000h''"
    by (simp add: example_lower)
  have md: "mode ?opt = 2 \<or> mode ?opt = 3" by simp
  have shape: "nd_rows (const_array 2 3 1) = nd_rows (const_array 2 3 4)"
              "nd_cols (const_array 2 3 1) = nd_cols (const_array 2 3 4)"
              "nd_rows (const_array 2 3 2) = nd_rows (const_array 2 3 4)"
              "nd_cols (const_array 2 3 2) = nd_cols (const_array 2 3 4)"
    by (simp_all add: const_array_def)
  from lps_estimate_is_denormalized [OF example_long_chunk feat example_centred example_normed stats variant md est
      example_irm example_lps shape]
  obtain r where
    d: "denoise_chunk example_env ?opt example_mean example_var (replicate 256 0) =
          logspec2wav example_env r (replicate 256 0) WL WL WL2"
    and r: "\<forall>i<nd_rows (const_array 2 3 4). \<forall>j<nd_cols (const_array 2 3 4).
              nd_at r i j =
                (if mode ?opt = 2
                 then nd_at (const_array 2 3 2) i j * nd_at example_var 0 j + nd_at example_mean 0 j
                 else 0.5 * (nd_at (const_array 2 3 4) i j + nd_at (np_log (const_array 2 3 1)) i j)
                    + 0.5 * (nd_at (const_array 2 3 2) i j * nd_at example_var 0 j
                             + nd_at example_mean 0 j))"
    by blast
  from r have "nd_at r 0 0 = 9"
    by (simp add: const_array_def example_mean_def example_var_def)
  with d show ?thesis by (simp add: example_env_def map_replicate_const)
qed

text \<open>
  Claim C5. On the same inputs, when modes 1 and 2 yield recovered spectra of one shape,
  mode 3 yields a spectrum of that shape whose entries are the averages of the
  corresponding entries of the two.
\<close>

theorem blend_is_average:
  assumes r1: "recovered_lps 1 noisy irm lps gm gv = Inr r1"
      and r2: "recovered_lps 2 noisy irm lps gm gv = Inr r2"
      and shape: "nd_rows r2 = nd_rows r1" "nd_cols r2 = nd_cols r1"
  shows "\<exists>r3. recovered_lps 3 noisy irm lps gm gv = Inr r3 \<and>
              nd_rows r3 = nd_rows r1 \<and> nd_cols r3 = nd_cols r1 \<and>
              (\<forall>i<nd_rows r1. \<forall>j<nd_cols r1. nd_at r3 i j = (nd_at r1 i j + nd_at r2 i j) / 2)"
proof -
  have "recovered_lps 3 noisy irm lps gm gv = np_add (scalar_mul 0.5 r1) (scalar_mul 0.5 r2)"
    by (simp add: blend_recovered_eq r1 r2 and_then_def)
  moreover from broadcast_same_shape[of "scalar_mul 0.5 r2" "scalar_mul 0.5 r1" "\<lambda>x y. x + y"] shape
  obtain r3 where "np_add (scalar_mul 0.5 r1) (scalar_mul 0.5 r2) = Inr r3"
      "nd_rows r3 = nd_rows r1" "nd_cols r3 = nd_cols r1"
      "\<forall>i<nd_rows r1. \<forall>j<nd_cols r1. nd_at r3 i j = 0.5 * nd_at r1 i j + 0.5 * nd_at r2 i j"
    by (auto simp: np_add_def)
  ultimately show ?thesis by (auto simp: field_simps)
qed

theorem blend_is_average_witness:
  "\<exists>r3. recovered_lps 3 (const_array 2 3 4) (const_array 2 3 1) (const_array 2 3 2)
           example_mean example_var = Inr r3 \<and>
         nd_rows r3 = 2 \<and> nd_cols r3 = 3 \<and> nd_at r3 0 0 = 13 / 2"
proof -
  have shape: "nd_rows (const_array 2 3 1) = nd_rows (const_array 2 3 4)"
              "nd_cols (const_array 2 3 1) = nd_cols (const_array 2 3 4)"
    by (simp_all add: const_array_def)
  from irm_only_recovered[OF shape, of "const_array 2 3 2" example_mean example_var]
  obtain r1 where r1: "recovered_lps 1 (const_array 2 3 4) (const_array 2 3 1)
                         (const_array 2 3 2) example_mean example_var = Inr r1"
    and s1: "nd_rows r1 = 2" "nd_cols r1 = 3" and v1: "nd_at r1 0 0 = 4"
    by (auto simp: const_array_def)
  from lps_only_recovered[of example_mean "const_array 2 3 2" example_var
      "const_array 2 3 4" "const_array 2 3 1"]
  obtain r2 where r2: "recovered_lps 2 (const_array 2 3 4) (const_array 2 3 1)
                         (const_array 2 3 2) example_mean example_var = Inr r2"
    and s2: "nd_rows r2 = 2" "nd_cols r2 = 3" and v2: "nd_at r2 0 0 = 9"
    by (auto simp: const_array_def example_mean_def example_var_def)
  have shape12: "nd_rows r2 = nd_rows r1" "nd_cols r2 = nd_cols r1"
    by (simp_all add: s1 s2)
  from blend_is_average [OF r1 r2 shape12] show ?thesis
    by (auto simp: s1 v1 v2)
qed

end
